theory Spec2Isabelle
  imports Complex_Main "HOL-Library.AList"
begin

section \<open>JavaScript values\<close>

text \<open>
  The server (\<^verbatim>\<open>src/server/server.js\<close>; \<^verbatim>\<open>src/unnamed/part_000\<close> is the same program
  with more comments and one more log line) works on the values that \<^verbatim>\<open>JSON.parse\<close>
  returns. A number is the value of the double: both zeros are \<open>Finite 0\<close> (they are
  equal under \<^verbatim>\<open>===\<close> and both falsy). A string is a list of characters standing for
  its code units. An object is the list of its own properties in enumeration order.
\<close>

datatype number = Finite rat | PosInfinity | NegInfinity | NaN

datatype jsval =
    JUndefined
  | JNull
  | JBool bool
  | JNumber number
  | JString string
  | JArray "jsval list"
  | JObject "(string \<times> jsval) list"

datatype error = SyntaxError | TypeError | RangeError

text \<open>
  \<^verbatim>\<open>message.k\<close>. Reading a property of \<^verbatim>\<open>null\<close> or \<^verbatim>\<open>undefined\<close> throws a TypeError.
  The handler reads \<^verbatim>\<open>type\<close>, \<^verbatim>\<open>userId\<close> and \<^verbatim>\<open>stateData\<close> only, which no prototype
  defines, so on a primitive or an array the read gives \<^verbatim>\<open>undefined\<close>.
\<close>

fun get_prop :: "jsval \<Rightarrow> string \<Rightarrow> error + jsval" where
  "get_prop JUndefined k = Inl TypeError"
| "get_prop JNull k = Inl TypeError"
| "get_prop (JObject ps) k = Inr (case map_of ps k of None \<Rightarrow> JUndefined | Some v \<Rightarrow> v)"
| "get_prop v k = Inr JUndefined"

text \<open>The condition of \<^verbatim>\<open>if (v)\<close>.\<close>

fun truthy :: "jsval \<Rightarrow> bool" where
  "truthy JUndefined = False"
| "truthy JNull = False"
| "truthy (JBool b) = b"
| "truthy (JNumber n) = (n \<noteq> Finite 0 \<and> n \<noteq> NaN)"
| "truthy (JString s) = (s \<noteq> [])"
| "truthy (JArray xs) = True"
| "truthy (JObject ps) = True"

text \<open>The decimal name of an array index, as a property key.\<close>

fun index_key :: "nat \<Rightarrow> string" where
  "index_key n =
     (if n < 10 then [''0123456789'' ! n]
      else index_key (n div 10) @ [''0123456789'' ! (n mod 10)])"

text \<open>
  The own enumerable properties that the spread \<^verbatim>\<open>{...message}\<close> copies: those of an
  object, the elements of an array and the characters of a string under their indices,
  none for the other primitives.
\<close>

fun spread :: "jsval \<Rightarrow> (string \<times> jsval) list" where
  "spread (JObject ps) = ps"
| "spread (JArray xs) = zip (map index_key [0..<length xs]) xs"
| "spread (JString s) = zip (map index_key [0..<length s]) (map (\<lambda>c. JString [c]) s)"
| "spread v = []"

text \<open>
  \<^verbatim>\<open>JSON.stringify\<close> recurses once for every level of arrays and objects in its argument
  and throws a RangeError when the call stack is exhausted. \<open>depth\<close> counts the levels.
  The limit belongs to the engine: \<open>stack\<close> is the number of levels below the first one
  that it can serialise (a flat object always fits). On the values of \<^verbatim>\<open>JSON.parse\<close>
  there is nothing else for \<^verbatim>\<open>JSON.stringify\<close> to throw (no cycle, no BigInt).
\<close>

fun depth :: "jsval \<Rightarrow> nat"
  and depth_list :: "jsval list \<Rightarrow> nat"
  and depth_props :: "(string \<times> jsval) list \<Rightarrow> nat" where
  "depth (JArray xs) = Suc (depth_list xs)"
| "depth (JObject ps) = Suc (depth_props ps)"
| "depth JUndefined = 0"
| "depth JNull = 0"
| "depth (JBool b) = 0"
| "depth (JNumber n) = 0"
| "depth (JString s) = 0"
| "depth_list [] = 0"
| "depth_list (x # xs) = max (depth x) (depth_list xs)"
| "depth_props [] = 0"
| "depth_props ((k, v) # ps) = max (depth v) (depth_props ps)"

definition JSON_stringify_throws :: "nat \<Rightarrow> jsval \<Rightarrow> bool" where
  "JSON_stringify_throws stack v \<longleftrightarrow> Suc stack < depth v"

section \<open>The array of snapshots\<close>

text \<open>
  \<^verbatim>\<open>canvasStates\<close> is a JavaScript array. \<open>elems\<close> are its elements at the indices
  \<open>0 ..< length\<close>; a hole reads as \<^verbatim>\<open>undefined\<close> and is stored as \<open>JUndefined\<close> (the
  server only reads by index). An assignment at a negative index does not touch the
  elements: it sets a property named by that number, kept in \<open>named\<close>.
  Indices are integers (the doubles the server computes are whole numbers).
\<close>

record js_array =
  elems :: "jsval list"
  named :: "(int \<times> jsval) list"

definition array_length :: "js_array \<Rightarrow> int" where
  "array_length a = int (length (elems a))"

text \<open>\<^verbatim>\<open>a[i]\<close>\<close>

definition array_get :: "js_array \<Rightarrow> int \<Rightarrow> jsval" where
  "array_get a i =
     (if 0 \<le> i then
        (if i < array_length a then elems a ! nat i else JUndefined)
      else (case map_of (named a) i of None \<Rightarrow> JUndefined | Some v \<Rightarrow> v))"

text \<open>\<^verbatim>\<open>a[i] = v\<close>: past the end the array grows, the gap being holes.\<close>

definition array_set :: "js_array \<Rightarrow> int \<Rightarrow> jsval \<Rightarrow> js_array" where
  "array_set a i v =
     (if 0 \<le> i then
        (if i < array_length a then a\<lparr>elems := (elems a)[nat i := v]\<rparr>
         else a\<lparr>elems := elems a @ replicate (nat i - length (elems a)) JUndefined @ [v]\<rparr>)
      else a\<lparr>named := AList.update i v (named a)\<rparr>)"

text \<open>
  \<^verbatim>\<open>a.splice(start)\<close> (\<open>deleteCount = None\<close>) and \<^verbatim>\<open>a.splice(start, deleteCount)\<close>,
  with no items to insert: a negative start counts from the end, both arguments are
  clamped to the array. The server drops the returned elements.
\<close>

definition splice :: "js_array \<Rightarrow> int \<Rightarrow> int option \<Rightarrow> js_array" where
  "splice a start deleteCount =
     (let len = array_length a;
          s = (if start < 0 then max (len + start) 0 else min start len);
          d = (case deleteCount of None \<Rightarrow> len - s | Some c \<Rightarrow> min (max c 0) (len - s))
      in a\<lparr>elems := take (nat s) (elems a) @ drop (nat (s + d)) (elems a)\<rparr>)"

text \<open>\<^verbatim>\<open>a.length = n\<close>\<close>

definition set_length :: "js_array \<Rightarrow> nat \<Rightarrow> js_array" where
  "set_length a n = a\<lparr>elems := take n (elems a) @ replicate (n - length (elems a)) JUndefined\<rparr>"

section \<open>The server state\<close>

text \<open>
  \<open>ws_OPEN\<close> is \<^verbatim>\<open>user.ws.readyState === user.ws.OPEN\<close> at the time of a broadcast.
  \<^verbatim>\<open>connections\<close> is a Map, iterated in insertion order.
\<close>

record user =
  ws_OPEN :: bool
  color :: string
  name :: string
  userId :: string

type_synonym connections = "(string \<times> user) list"

record server =
  canvasStates :: js_array
  currentStateIndex :: int

definition initial_server :: server where
  "initial_server = \<lparr>canvasStates = \<lparr>elems = [], named = []\<rparr>, currentStateIndex = - 1\<rparr>"

text \<open>
  The \<^verbatim>\<open>ws.send\<close> calls of the loop in \<^verbatim>\<open>broadcastToAll\<close> when nothing throws: one for
  every connection that is not the excluded one and whose transport is open, in the
  order of the Map, each the recipient's key and the message serialised for it.
\<close>

definition deliveries :: "connections \<Rightarrow> jsval \<Rightarrow> string option \<Rightarrow> (string \<times> jsval) list" where
  "deliveries conns message excludeUserId =
     map (\<lambda>(k, u). (k, message))
       (filter (\<lambda>(k, u). Some k \<noteq> excludeUserId \<and> ws_OPEN u) conns)"

text \<open>
  \<^verbatim>\<open>broadcastToAll(message, excludeUserId = null)\<close>. The loop calls
  \<^verbatim>\<open>user.ws.send(JSON.stringify(message))\<close> for every recipient, with the same message:
  where \<^verbatim>\<open>JSON.stringify\<close> throws, it throws for the first recipient, before any send,
  and the exception leaves the function. With no recipient it is not called.
\<close>

definition broadcastToAll ::
  "nat \<Rightarrow> connections \<Rightarrow> jsval \<Rightarrow> string option \<Rightarrow> error + (string \<times> jsval) list" where
  "broadcastToAll stack conns message excludeUserId =
     (if deliveries conns message excludeUserId \<noteq> [] \<and> JSON_stringify_throws stack message
      then Inl RangeError
      else Inr (deliveries conns message excludeUserId))"

section \<open>The message handler\<close>

text \<open>
  The \<^verbatim>\<open>switch\<close> in the \<^verbatim>\<open>try\<close> block of the handler registered for the connection
  of \<open>uid\<close> (colour \<open>ucolor\<close>): the state as the block leaves it, and the sends it made
  or the exception it threw. The cursor is written before the broadcast is attempted, so
  it stays written when the broadcast throws.
\<close>

definition dispatch ::
  "nat \<Rightarrow> connections \<Rightarrow> string \<Rightarrow> string \<Rightarrow> server \<Rightarrow> jsval
     \<Rightarrow> server \<times> (error + (string \<times> jsval) list)" where
  "dispatch stack conns uid ucolor st message =
     (case get_prop message ''type'' of
        Inl e \<Rightarrow> (st, Inl e)
      | Inr t \<Rightarrow>
          if t = JString ''draw-end'' then
            (case get_prop message ''userId'' of
               Inl e \<Rightarrow> (st, Inl e)
             | Inr u \<Rightarrow>
                 if u = JString uid then
                   (st, broadcastToAll stack conns
                          (JObject [(''type'', JString ''save-state''), (''userId'', JString uid)]) None)
                 else (st, Inr []))
          else if t = JString ''undo'' then
            (if currentStateIndex st > 0 then
               (let st' = st\<lparr>currentStateIndex := currentStateIndex st - 1\<rparr>
                in (st', broadcastToAll stack conns
                          (JObject [(''type'', JString ''undo''),
                                    (''stateIndex'', JNumber (Finite (of_int (currentStateIndex st')))),
                                    (''stateData'', array_get (canvasStates st') (currentStateIndex st'))])
                          None))
             else if currentStateIndex st = 0 then
               (st\<lparr>currentStateIndex := - 1\<rparr>,
                broadcastToAll stack conns
                  (JObject [(''type'', JString ''undo''),
                            (''stateIndex'', JNumber (Finite (- 1))),
                            (''stateData'', JNull)])
                  None)
             else (st, Inr []))
          else if t = JString ''redo'' then
            (if currentStateIndex st < array_length (canvasStates st) - 1 then
               (let st' = st\<lparr>currentStateIndex := currentStateIndex st + 1\<rparr>
                in (st', broadcastToAll stack conns
                          (JObject [(''type'', JString ''redo''),
                                    (''stateIndex'', JNumber (Finite (of_int (currentStateIndex st')))),
                                    (''stateData'', array_get (canvasStates st') (currentStateIndex st'))])
                          None))
             else (st, Inr []))
          else if t = JString ''clear'' then
            (st\<lparr>currentStateIndex := - 1, canvasStates := set_length (canvasStates st) 0\<rparr>,
             broadcastToAll stack conns
               (JObject [(''type'', JString ''clear''), (''userId'', JString uid)]) None)
          else if t = JString ''save-state'' then
            (case get_prop message ''stateData'' of
               Inl e \<Rightarrow> (st, Inl e)
             | Inr stateData \<Rightarrow>
                 if truthy stateData then
                   (let a = (if currentStateIndex st < array_length (canvasStates st) - 1
                             then splice (canvasStates st) (currentStateIndex st + 1) None
                             else canvasStates st);
                        i = currentStateIndex st + 1
                    in (\<lparr>canvasStates = array_set a i stateData, currentStateIndex = i\<rparr>, Inr []))
                 else (st, Inr []))
          else if t = JString ''draw-start'' \<or> t = JString ''draw-move'' then
            (st, broadcastToAll stack conns
                   (JObject (AList.update ''userId'' (JString uid) (spread message)))
                   (Some uid))
          else
            (st, broadcastToAll stack conns
                   (JObject (AList.update ''color'' (JString ucolor)
                      (AList.update ''userId'' (JString uid) (spread message))))
                   (Some uid)))"

text \<open>
  \<^verbatim>\<open>ws.on('message', (data) => { try { ... } catch (error) { console.error(...) } })\<close>.
  \<open>parsed\<close> is what \<^verbatim>\<open>JSON.parse(data)\<close> does: it throws or returns a value. Every
  exception of the \<^verbatim>\<open>try\<close> block ends in the \<^verbatim>\<open>catch\<close>, which logs it and restores
  nothing. \<open>thrown\<close> is the exception that leaves the callback and \<open>closed\<close> are the
  connections it closes: the callback has no statement outside the \<^verbatim>\<open>try\<close> and calls
  nothing on a socket but \<^verbatim>\<open>send\<close>.
\<close>

record outcome =
  state :: server
  sent :: "(string \<times> jsval) list"
  logged :: "error list"
  thrown :: "error option"
  closed :: "string list"

definition on_message ::
  "nat \<Rightarrow> connections \<Rightarrow> string \<Rightarrow> string \<Rightarrow> server \<Rightarrow> error + jsval \<Rightarrow> outcome" where
  "on_message stack conns uid ucolor st parsed =
     (case parsed of
        Inl e \<Rightarrow> \<lparr>state = st, sent = [], logged = [e], thrown = None, closed = []\<rparr>
      | Inr message \<Rightarrow>
          (case dispatch stack conns uid ucolor st message of
             (st', Inl e) \<Rightarrow> \<lparr>state = st', sent = [], logged = [e], thrown = None, closed = []\<rparr>
           | (st', Inr out) \<Rightarrow> \<lparr>state = st', sent = out, logged = [], thrown = None, closed = []\<rparr>))"

section \<open>The periodic sweep\<close>

text \<open>The callback of \<^verbatim>\<open>setInterval(..., 60000)\<close>.\<close>

definition sweep :: "server \<Rightarrow> server" where
  "sweep st =
     (if array_length (canvasStates st) > 50 then
        (let statesToRemove = array_length (canvasStates st) - 50
         in \<lparr>canvasStates = splice (canvasStates st) 0 (Some statesToRemove),
             currentStateIndex = currentStateIndex st - statesToRemove\<rparr>)
      else st)"

section \<open>Runs\<close>

text \<open>
  The event loop runs one callback at a time: a message on some connection (with the
  connection table at that moment) or a tick of the sweep timer.
\<close>

datatype event = Message connections string string "error + jsval" | Sweep

fun step :: "nat \<Rightarrow> server \<Rightarrow> event \<Rightarrow> server" where
  "step stack st (Message conns uid ucolor parsed) =
     state (on_message stack conns uid ucolor st parsed)"
| "step stack st Sweep = sweep st"

definition run :: "nat \<Rightarrow> server \<Rightarrow> event list \<Rightarrow> server" where
  "run stack st evs = foldl (step stack) st evs"

text \<open>The states after each event of a run, in order.\<close>

fun trace :: "nat \<Rightarrow> server \<Rightarrow> event list \<Rightarrow> server list" where
  "trace stack st [] = []"
| "trace stack st (e # evs) = step stack st e # trace stack (step stack st e) evs"

text \<open>The messages a client sends, as parsed by the server.\<close>

definition msg :: "string \<Rightarrow> error + jsval" where
  "msg t = Inr (JObject [(''type'', JString t)])"

definition save_state_msg :: "jsval \<Rightarrow> error + jsval" where
  "save_state_msg d = Inr (JObject [(''type'', JString ''save-state''), (''stateData'', d)])"

text \<open>The invariant of the history: the cursor is \<open>-1\<close> or an index of the array.\<close>

definition history_inv :: "server \<Rightarrow> bool" where
  "history_inv st \<longleftrightarrow>
     - 1 \<le> currentStateIndex st \<and> currentStateIndex st \<le> array_length (canvasStates st) - 1"

section \<open>Example inputs\<close>

text \<open>
  Three participants, the third with a closed transport, a history of two snapshots,
  the events of the first participant and a value nested \<open>n\<close> arrays deep, used to
  evaluate the theorems below.
\<close>

abbreviation (input) user1 :: user where
  "user1 \<equiv> \<lparr>ws_OPEN = True, color = ''#FF6B6B'', name = ''User 1'', userId = ''user-1''\<rparr>"

abbreviation (input) user2 :: user where
  "user2 \<equiv> \<lparr>ws_OPEN = True, color = ''#4ECDC4'', name = ''User 2'', userId = ''user-2''\<rparr>"

abbreviation (input) user3 :: user where
  "user3 \<equiv> \<lparr>ws_OPEN = False, color = ''#45B7D1'', name = ''User 3'', userId = ''user-3''\<rparr>"

abbreviation (input) three_users :: connections where
  "three_users \<equiv> [(''user-1'', user1), (''user-2'', user2), (''user-3'', user3)]"

abbreviation (input) history_AB :: "int \<Rightarrow> server" where
  "history_AB i \<equiv> \<lparr>canvasStates = \<lparr>elems = [JString ''A'', JString ''B''], named = []\<rparr>,
                     currentStateIndex = i\<rparr>"

abbreviation (input) push :: "jsval \<Rightarrow> event" where
  "push d \<equiv> Message three_users ''user-1'' ''#FF6B6B'' (save_state_msg d)"

abbreviation (input) undo :: event where
  "undo \<equiv> Message three_users ''user-1'' ''#FF6B6B'' (msg ''undo'')"

abbreviation (input) redo :: event where
  "redo \<equiv> Message three_users ''user-1'' ''#FF6B6B'' (msg ''redo'')"

fun nest :: "nat \<Rightarrow> jsval \<Rightarrow> jsval" where
  "nest 0 v = v"
| "nest (Suc n) v = JArray [nest n v]"

section \<open>Arrays and broadcasts\<close>

lemma array_get_index:
  "0 \<le> i \<Longrightarrow> i < array_length a \<Longrightarrow> array_get a i = elems a ! nat i"
  by (simp add: array_get_def)

lemma deliveries_all:
  "deliveries conns m None = map (\<lambda>(k, u). (k, m)) (filter (\<lambda>(k, u). ws_OPEN u) conns)"
  by (simp add: deliveries_def)


lemma broadcastToAll_flat:
  "depth message \<le> 1 \<Longrightarrow>
   broadcastToAll stack conns message excludeUserId = Inr (deliveries conns message excludeUserId)"
  by (simp add: broadcastToAll_def JSON_stringify_throws_def)

lemma type_is_string_object:
  "get_prop message k = Inr (JString t) \<Longrightarrow> \<exists>ps. message = JObject ps \<and> map_of ps k = Some (JString t)"
  by (cases message) (auto split: option.splits)

lemma depth_nest: "depth (nest n v) = n + depth v"
  by (induction n) simp_all

section \<open>Committing a snapshot\<close>

lemma splice_tail_elems:
  "0 \<le> i \<Longrightarrow> i \<le> array_length a \<Longrightarrow> elems (splice a i None) = take (nat i) (elems a)"
  by (simp add: splice_def array_length_def Let_def min_def)

lemma array_set_end:
  "i = array_length a \<Longrightarrow> array_set a i v = a\<lparr>elems := elems a @ [v]\<rparr>"
  by (simp add: array_set_def array_length_def)

lemma commit_valid:
  assumes "get_prop message ''type'' = Inr (JString ''save-state'')"
      and "get_prop message ''stateData'' = Inr d"
      and "truthy d"
      and "- 1 \<le> currentStateIndex st"
      and "currentStateIndex st \<le> array_length (canvasStates st) - 1"
  shows "on_message stack conns uid ucolor st (Inr message) =
           \<lparr>state = \<lparr>canvasStates = (canvasStates st)
                        \<lparr>elems := take (nat (currentStateIndex st + 1)) (elems (canvasStates st)) @ [d]\<rparr>,
                     currentStateIndex = currentStateIndex st + 1\<rparr>,
            sent = [], logged = [], thrown = None, closed = []\<rparr>"
proof (cases "currentStateIndex st < array_length (canvasStates st) - 1")
  case True
  let ?a = "splice (canvasStates st) (currentStateIndex st + 1) None"
  have e: "elems ?a = take (nat (currentStateIndex st + 1)) (elems (canvasStates st))"
    using True assms(4) by (simp add: splice_tail_elems)
  have l: "array_length ?a = currentStateIndex st + 1"
    using True assms(4) by (simp add: e array_length_def)
  have "array_set ?a (currentStateIndex st + 1) d = ?a\<lparr>elems := elems ?a @ [d]\<rparr>"
    by (rule array_set_end) (simp add: l)
  also have "\<dots> = (canvasStates st)
      \<lparr>elems := take (nat (currentStateIndex st + 1)) (elems (canvasStates st)) @ [d]\<rparr>"
    by (simp add: e) (simp add: splice_def Let_def)
  finally show ?thesis
    using True assms(1-3) by (simp add: on_message_def dispatch_def Let_def)
next
  case False
  then have c: "currentStateIndex st + 1 = array_length (canvasStates st)"
    using assms(5) by simp
  have "array_set (canvasStates st) (currentStateIndex st + 1) d
          = (canvasStates st)\<lparr>elems := elems (canvasStates st) @ [d]\<rparr>"
    by (rule array_set_end) (simp add: c)
  moreover have "take (nat (currentStateIndex st + 1)) (elems (canvasStates st)) = elems (canvasStates st)"
    by (simp add: c array_length_def)
  ultimately show ?thesis
    using False assms(1-3) by (simp add: on_message_def dispatch_def Let_def)
qed

lemma state_on_message:
  "state (on_message stack conns uid ucolor st (Inr message))
     = fst (dispatch stack conns uid ucolor st message)"
  by (simp add: on_message_def split: prod.splits sum.splits)

lemma dispatch_inv:
  assumes "history_inv st"
  shows "history_inv (fst (dispatch stack conns uid ucolor st message))"
proof (cases "get_prop message ''type'' = Inr (JString ''save-state'')
              \<and> (\<exists>d. get_prop message ''stateData'' = Inr d \<and> truthy d)")
  case True
  then obtain d where d: "get_prop message ''stateData'' = Inr d" "truthy d" by blast
  have "on_message stack conns uid ucolor st (Inr message) =
           \<lparr>state = \<lparr>canvasStates = (canvasStates st)
                        \<lparr>elems := take (nat (currentStateIndex st + 1)) (elems (canvasStates st)) @ [d]\<rparr>,
                     currentStateIndex = currentStateIndex st + 1\<rparr>,
            sent = [], logged = [], thrown = None, closed = []\<rparr>"
    using True d assms by (intro commit_valid) (simp_all add: history_inv_def)
  then have "fst (dispatch stack conns uid ucolor st message) =
               \<lparr>canvasStates = (canvasStates st)
                  \<lparr>elems := take (nat (currentStateIndex st + 1)) (elems (canvasStates st)) @ [d]\<rparr>,
                currentStateIndex = currentStateIndex st + 1\<rparr>"
    by (simp add: state_on_message [symmetric])
  then show ?thesis
    using assms by (auto simp add: history_inv_def array_length_def)
next
  case False
  then show ?thesis
    using assms
    by (auto simp add: dispatch_def history_inv_def Let_def array_length_def set_length_def
             split: sum.splits if_splits)
qed

lemma on_message_inv:
  "history_inv st \<Longrightarrow> history_inv (state (on_message stack conns uid ucolor st parsed))"
proof (cases parsed)
  case (Inl e)
  then show "history_inv st \<Longrightarrow> ?thesis" by (simp add: on_message_def)
next
  case (Inr message)
  then show "history_inv st \<Longrightarrow> ?thesis" by (simp add: state_on_message dispatch_inv)
qed

section \<open>Runs of pushes and undos, and the sweep\<close>

lemma step_push_top:
  assumes "truthy d" and "currentStateIndex st = array_length (canvasStates st) - 1"
  shows "step stack st (Message conns uid ucolor (save_state_msg d)) =
           \<lparr>canvasStates = (canvasStates st)\<lparr>elems := elems (canvasStates st) @ [d]\<rparr>,
            currentStateIndex = currentStateIndex st + 1\<rparr>"
proof -
  let ?m = "JObject [(''type'', JString ''save-state''), (''stateData'', d)]"
  have "on_message stack conns uid ucolor st (Inr ?m) =
           \<lparr>state = \<lparr>canvasStates = (canvasStates st)
                        \<lparr>elems := take (nat (currentStateIndex st + 1)) (elems (canvasStates st)) @ [d]\<rparr>,
                     currentStateIndex = currentStateIndex st + 1\<rparr>,
            sent = [], logged = [], thrown = None, closed = []\<rparr>"
    using assms by (intro commit_valid) (simp_all add: array_length_def)
  moreover have "take (nat (currentStateIndex st + 1)) (elems (canvasStates st)) = elems (canvasStates st)"
    using assms(2) by (simp add: array_length_def)
  ultimately show ?thesis by (simp add: save_state_msg_def)
qed

lemma run_pushes:
  assumes "truthy d"
  shows "currentStateIndex st = array_length (canvasStates st) - 1 \<Longrightarrow>
         run stack st (replicate n (Message conns uid ucolor (save_state_msg d))) =
           \<lparr>canvasStates = (canvasStates st)\<lparr>elems := elems (canvasStates st) @ replicate n d\<rparr>,
            currentStateIndex = currentStateIndex st + int n\<rparr>"
proof (induction n arbitrary: st)
  case 0
  then show ?case by (simp add: run_def)
next
  case (Suc n)
  let ?e = "Message conns uid ucolor (save_state_msg d)"
  let ?st = "step stack st ?e"
  have s: "?st = \<lparr>canvasStates = (canvasStates st)\<lparr>elems := elems (canvasStates st) @ [d]\<rparr>,
                  currentStateIndex = currentStateIndex st + 1\<rparr>"
    using assms Suc.prems by (rule step_push_top)
  have "currentStateIndex ?st = array_length (canvasStates ?st) - 1"
    unfolding s using Suc.prems by (simp add: array_length_def)
  then have "run stack ?st (replicate n ?e) =
           \<lparr>canvasStates = (canvasStates ?st)\<lparr>elems := elems (canvasStates ?st) @ replicate n d\<rparr>,
            currentStateIndex = currentStateIndex ?st + int n\<rparr>"
    by (rule Suc.IH)
  moreover have "run stack st (replicate (Suc n) ?e) = run stack ?st (replicate n ?e)"
    by (simp add: run_def)
  ultimately show ?case
    unfolding s by (simp add: replicate_app_Cons_same)
qed

lemma run_pushes_initial:
  assumes "truthy d"
  shows "run stack initial_server (replicate n (Message conns uid ucolor (save_state_msg d))) =
           \<lparr>canvasStates = \<lparr>elems = replicate n d, named = []\<rparr>, currentStateIndex = int n - 1\<rparr>"
proof -
  have "currentStateIndex initial_server = array_length (canvasStates initial_server) - 1"
    by (simp add: initial_server_def array_length_def)
  from run_pushes [OF assms this] show ?thesis
    by (simp add: initial_server_def)
qed

lemma step_undo:
  "step stack st (Message conns uid ucolor (msg ''undo'')) =
     (if 0 \<le> currentStateIndex st then st\<lparr>currentStateIndex := currentStateIndex st - 1\<rparr> else st)"
  by (simp add: msg_def state_on_message dispatch_def Let_def)

lemma run_undos:
  "- 1 \<le> currentStateIndex st \<Longrightarrow>
   run stack st (replicate n (Message conns uid ucolor (msg ''undo''))) =
     st\<lparr>currentStateIndex := max (currentStateIndex st - int n) (- 1)\<rparr>"
proof (induction n arbitrary: st)
  case 0
  then show ?case by (simp add: run_def max_def)
next
  case (Suc n)
  let ?e = "Message conns uid ucolor (msg ''undo'')"
  have r: "run stack st (replicate (Suc n) ?e) = run stack (step stack st ?e) (replicate n ?e)"
    by (simp add: run_def)
  have "- 1 \<le> currentStateIndex (step stack st ?e)"
    using Suc.prems by (simp add: step_undo del: step.simps)
  from Suc.IH [OF this] show ?case
    unfolding r using Suc.prems by (auto simp add: step_undo max_def simp del: step.simps)
qed

lemma run_append: "run stack st (xs @ ys) = run stack (run stack st xs) ys"
  by (simp add: run_def)

lemma sweep_length: "array_length (canvasStates (sweep st)) \<le> 50"
  by (auto simp add: sweep_def splice_def array_length_def Let_def)

lemma sweep_full:
  assumes "array_length (canvasStates st) > 50"
  shows "sweep st =
           \<lparr>canvasStates = (canvasStates st)
              \<lparr>elems := drop (length (elems (canvasStates st)) - 50) (elems (canvasStates st))\<rparr>,
            currentStateIndex = currentStateIndex st - (array_length (canvasStates st) - 50)\<rparr>"
proof -
  have "nat (int (length (elems (canvasStates st))) - 50) = length (elems (canvasStates st)) - 50"
    by simp
  then show ?thesis
    using assms by (simp add: sweep_def splice_def array_length_def Let_def)
qed

lemma sweep_keeps_snapshot:
  assumes "array_length (canvasStates st) > 50"
      and "array_length (canvasStates st) - 50 \<le> currentStateIndex st"
      and "currentStateIndex st \<le> array_length (canvasStates st) - 1"
  shows "array_get (canvasStates (sweep st)) (currentStateIndex (sweep st))
           = array_get (canvasStates st) (currentStateIndex st)"
    and "history_inv (sweep st)"
proof -
  let ?xs = "elems (canvasStates st)"
  let ?k = "length ?xs - 50"
  have k: "int ?k = int (length ?xs) - 50" using assms(1) by (simp add: array_length_def)
  have n: "nat (currentStateIndex st - (int (length ?xs) - 50)) = nat (currentStateIndex st) - ?k"
    using assms by (simp add: array_length_def nat_diff_distrib')
  have "?k + (nat (currentStateIndex st) - ?k) = nat (currentStateIndex st)"
    using assms by (simp add: array_length_def)
  then show "array_get (canvasStates (sweep st)) (currentStateIndex (sweep st))
           = array_get (canvasStates st) (currentStateIndex st)"
    using assms by (simp add: sweep_full array_get_def array_length_def n)
  show "history_inv (sweep st)"
    using assms by (simp add: sweep_full history_inv_def array_length_def)
qed

text \<open>
  The state that 51 pushes, 51 undos and a tick of the sweep reach: 50 snapshots and the
  cursor at -2.
\<close>

lemma run_below_floor:
  "run stack initial_server
     (replicate 51 (Message conns uid ucolor (save_state_msg (JString ''S'')))
      @ replicate 51 (Message conns uid ucolor (msg ''undo'')) @ [Sweep]) =
     \<lparr>canvasStates = \<lparr>elems = replicate 50 (JString ''S''), named = []\<rparr>,
      currentStateIndex = - 2\<rparr>"
proof -
  let ?s1 = "run stack initial_server (replicate 51 (Message conns uid ucolor (save_state_msg (JString ''S''))))"
  have s1: "?s1 = \<lparr>canvasStates = \<lparr>elems = replicate 51 (JString ''S''), named = []\<rparr>,
                   currentStateIndex = 50\<rparr>"
    by (simp add: run_pushes_initial)
  have s2: "run stack ?s1 (replicate 51 (Message conns uid ucolor (msg ''undo'')))
              = \<lparr>canvasStates = \<lparr>elems = replicate 51 (JString ''S''), named = []\<rparr>,
                 currentStateIndex = - 1\<rparr>"
    unfolding s1 by (simp add: run_undos)
  have s3: "run stack (run stack ?s1 (replicate 51 (Message conns uid ucolor (msg ''undo'')))) [Sweep]
              = \<lparr>canvasStates = \<lparr>elems = replicate 50 (JString ''S''), named = []\<rparr>,
                 currentStateIndex = - 2\<rparr>"
    unfolding s2 by (simp add: run_def sweep_full array_length_def)
  show ?thesis
    unfolding run_append s3 by simp
qed

section \<open>The invariant along a run\<close>

lemma trace_inv:
  "history_inv st \<Longrightarrow> Sweep \<notin> set evs \<Longrightarrow> list_all history_inv (trace stack st evs)"
proof (induction evs arbitrary: st)
  case Nil
  then show ?case by simp
next
  case (Cons e evs)
  then obtain conns uid ucolor parsed where e: "e = Message conns uid ucolor parsed"
    by (cases e) auto
  have "history_inv (step stack st e)"
    using Cons.prems(1) by (simp add: e on_message_inv)
  moreover from this have "list_all history_inv (trace stack (step stack st e) evs)"
    using Cons.prems(2) by (intro Cons.IH) simp_all
  ultimately show ?case by simp
qed

lemma initial_inv: "history_inv initial_server"
  by (simp add: history_inv_def initial_server_def array_length_def)

section \<open>The claims\<close>

subsection \<open>C1: draw-end\<close>

text \<open>
  C1, as stated, fails: a \<^verbatim>\<open>draw-end\<close> message is answered with the \<^verbatim>\<open>save-state\<close>
  request only under the guard \<^verbatim>\<open>message.userId === userId\<close>. The message
  \<^verbatim>\<open>{"type":"draw-end"}\<close> carries no \<^verbatim>\<open>userId\<close>, and nothing is sent, whereas the
  broadcast to all would reach the two open participants.
\<close>

theorem draw_end_counterexample:
  "sent (on_message 5000 three_users ''user-1'' ''#FF6B6B'' initial_server (msg ''draw-end'')) \<noteq>
     deliveries three_users
       (JObject [(''type'', JString ''save-state''), (''userId'', JString ''user-1'')]) None"
  by (simp add: msg_def on_message_def dispatch_def deliveries_def)

text \<open>
  C1, amended: a \<^verbatim>\<open>draw-end\<close> message never changes the history, and the
  \<^verbatim>\<open>save-state\<close> request carrying the connection's id is sent to every participant
  with an open transport (the sender too) exactly when the message's \<^verbatim>\<open>userId\<close> is the
  connection's own id; otherwise nothing is sent. The request is a flat object, which
  \<^verbatim>\<open>JSON.stringify\<close> always serialises.
\<close>

theorem draw_end_guard:
  assumes "get_prop message ''type'' = Inr (JString ''draw-end'')"
  shows "on_message stack conns uid ucolor st (Inr message) =
           \<lparr>state = st,
            sent = (if get_prop message ''userId'' = Inr (JString uid)
                    then deliveries conns
                           (JObject [(''type'', JString ''save-state''), (''userId'', JString uid)]) None
                    else []),
            logged = [], thrown = None, closed = []\<rparr>"
proof -
  have "broadcastToAll stack conns
          (JObject [(''type'', JString ''save-state''), (''userId'', JString uid)]) None
        = Inr (deliveries conns
                 (JObject [(''type'', JString ''save-state''), (''userId'', JString uid)]) None)"
    by (rule broadcastToAll_flat) simp
  then show ?thesis
    using assms
    by (cases message) (auto simp add: on_message_def dispatch_def split: sum.splits)
qed

text \<open>
  C1, the amended statement at a message that carries the sender's id and at one that
  carries none.
\<close>

theorem draw_end_guard_witness:
  "get_prop (JObject [(''type'', JString ''draw-end''), (''userId'', JString ''user-1'')]) ''type''
     = Inr (JString ''draw-end'')
   \<and> on_message 5000 three_users ''user-1'' ''#FF6B6B'' (history_AB 1)
         (Inr (JObject [(''type'', JString ''draw-end''), (''userId'', JString ''user-1'')])) =
       \<lparr>state = history_AB 1,
        sent = [(''user-1'', JObject [(''type'', JString ''save-state''), (''userId'', JString ''user-1'')]),
                (''user-2'', JObject [(''type'', JString ''save-state''), (''userId'', JString ''user-1'')])],
        logged = [], thrown = None, closed = []\<rparr>
   \<and> get_prop (JObject [(''type'', JString ''draw-end'')]) ''type'' = Inr (JString ''draw-end'')
   \<and> on_message 5000 three_users ''user-1'' ''#FF6B6B'' (history_AB 1) (msg ''draw-end'') =
       \<lparr>state = history_AB 1, sent = [], logged = [], thrown = None, closed = []\<rparr>"
proof -
  have h: "get_prop (JObject [(''type'', JString ''draw-end''), (''userId'', JString ''user-1'')]) ''type''
     = Inr (JString ''draw-end'')"
    by simp
  have h': "get_prop (JObject [(''type'', JString ''draw-end'')]) ''type'' = Inr (JString ''draw-end'')"
    by simp
  show ?thesis
    using h h'
      draw_end_guard [OF h, of 5000 three_users "''user-1''" "''#FF6B6B''" "history_AB 1"]
      draw_end_guard [OF h', of 5000 three_users "''user-1''" "''#FF6B6B''" "history_AB 1"]
    by (simp add: deliveries_def msg_def)
qed

subsection \<open>C2: the cursor stays in range\<close>

text \<open>
  C2: starting from the empty history (no entries, cursor -1), after every transition of
  every sequence of messages on any connections (\<^verbatim>\<open>save-state\<close> commits, \<^verbatim>\<open>undo\<close> and
  \<^verbatim>\<open>redo\<close> among them; no tick of the sweep) the cursor is at least -1 and at most the
  last index of the history.
\<close>

theorem cursor_invariant:
  assumes "Sweep \<notin> set evs"
  shows "list_all history_inv (trace stack initial_server evs)"
  using initial_inv assms by (rule trace_inv)

text \<open>C2 at a run of pushes, undos and a redo, with the cursor after each of its events.\<close>

theorem cursor_invariant_witness:
  "Sweep \<notin> set [push (JString ''A''), undo, undo, redo, push (JString ''B''), push (JString ''C''), undo]
   \<and> list_all history_inv
       (trace 5000 initial_server
          [push (JString ''A''), undo, undo, redo, push (JString ''B''), push (JString ''C''), undo])
   \<and> map currentStateIndex
       (trace 5000 initial_server
          [push (JString ''A''), undo, undo, redo, push (JString ''B''), push (JString ''C''), undo])
       = [0, - 1, - 1, 0, 1, 2, 1]
   \<and> map (\<lambda>s. array_length (canvasStates s))
       (trace 5000 initial_server
          [push (JString ''A''), undo, undo, redo, push (JString ''B''), push (JString ''C''), undo])
       = [1, 1, 1, 1, 2, 3, 3]"
proof -
  have h: "Sweep \<notin> set [push (JString ''A''), undo, undo, redo, push (JString ''B''), push (JString ''C''), undo]"
    by simp
  have t: "trace 5000 initial_server
          [push (JString ''A''), undo, undo, redo, push (JString ''B''), push (JString ''C''), undo]
        = [\<lparr>canvasStates = \<lparr>elems = [JString ''A''], named = []\<rparr>, currentStateIndex = 0\<rparr>,
           \<lparr>canvasStates = \<lparr>elems = [JString ''A''], named = []\<rparr>, currentStateIndex = - 1\<rparr>,
           \<lparr>canvasStates = \<lparr>elems = [JString ''A''], named = []\<rparr>, currentStateIndex = - 1\<rparr>,
           \<lparr>canvasStates = \<lparr>elems = [JString ''A''], named = []\<rparr>, currentStateIndex = 0\<rparr>,
           \<lparr>canvasStates = \<lparr>elems = [JString ''A'', JString ''B''], named = []\<rparr>,
              currentStateIndex = 1\<rparr>,
           \<lparr>canvasStates = \<lparr>elems = [JString ''A'', JString ''B'', JString ''C''], named = []\<rparr>,
              currentStateIndex = 2\<rparr>,
           \<lparr>canvasStates = \<lparr>elems = [JString ''A'', JString ''B'', JString ''C''], named = []\<rparr>,
              currentStateIndex = 1\<rparr>]"
    by (simp add: initial_server_def msg_def save_state_msg_def state_on_message dispatch_def
                  splice_def array_set_def array_length_def Let_def)
  have c: "map currentStateIndex
       (trace 5000 initial_server
          [push (JString ''A''), undo, undo, redo, push (JString ''B''), push (JString ''C''), undo])
       = [0, - 1, - 1, 0, 1, 2, 1]"
    unfolding t by simp
  have l: "map (\<lambda>s. array_length (canvasStates s))
       (trace 5000 initial_server
          [push (JString ''A''), undo, undo, redo, push (JString ''B''), push (JString ''C''), undo])
       = [1, 1, 1, 1, 2, 3, 3]"
    unfolding t by (simp add: array_length_def)
  from h cursor_invariant [OF h, of 5000] c l show ?thesis
    by blast
qed

subsection \<open>C3: the retention cap\<close>

text \<open>
  C3, as stated, fails: the \<^verbatim>\<open>save-state\<close> branch applies no cap. After 55 pushes from
  the empty history the array holds 55 snapshots and the cursor is 54.
\<close>

theorem push_cap_counterexample:
  "array_length (canvasStates (run 5000 initial_server (replicate 55 (push (JString ''S''))))) = 55
   \<and> currentStateIndex (run 5000 initial_server (replicate 55 (push (JString ''S'')))) = 54
   \<and> \<not> array_length (canvasStates (run 5000 initial_server (replicate 55 (push (JString ''S''))))) \<le> 50"
  by (simp add: run_pushes_initial array_length_def)

text \<open>
  C3, amended: the cap of 50 is applied by the periodic sweep only. After a sweep the
  history has at most 50 entries; a \<^verbatim>\<open>save-state\<close> commit applies no cap, so after 55
  consecutive pushes with no undo the length is 55 and the cursor 54, and the next sweep
  leaves length 50 and cursor 49.
\<close>

theorem retention_cap_by_sweep:
  assumes "truthy d"
  shows "array_length (canvasStates (sweep st)) \<le> 50
       \<and> array_length (canvasStates
            (run stack initial_server (replicate 55 (Message conns uid ucolor (save_state_msg d))))) = 55
       \<and> currentStateIndex
            (run stack initial_server (replicate 55 (Message conns uid ucolor (save_state_msg d)))) = 54
       \<and> array_length (canvasStates (sweep
            (run stack initial_server (replicate 55 (Message conns uid ucolor (save_state_msg d)))))) = 50
       \<and> currentStateIndex (sweep
            (run stack initial_server (replicate 55 (Message conns uid ucolor (save_state_msg d))))) = 49"
  using assms sweep_length [of st]
  by (simp add: run_pushes_initial sweep_full array_length_def)

text \<open>C3, the amended statement at 55 pushes of one snapshot.\<close>

theorem retention_cap_by_sweep_witness:
  "truthy (JString ''S'')
   \<and> array_length (canvasStates (sweep (run 5000 initial_server (replicate 55 (push (JString ''S'')))))) = 50
   \<and> currentStateIndex (sweep (run 5000 initial_server (replicate 55 (push (JString ''S''))))) = 49"
proof -
  have h: "truthy (JString ''S'')" by simp
  show ?thesis
    using h retention_cap_by_sweep [OF h, of _ 5000] by blast
qed

subsection \<open>C4: a push discards the redo tail\<close>

text \<open>
  C4 evaluated where it fails: 51 pushes, 51 undos and a tick of the sweep leave 50
  snapshots and the cursor at -2 (C5). The cursor is below the last index, so a push of
  D runs \<^verbatim>\<open>splice(-1)\<close>, which removes the last snapshot only, moves the cursor to -1
  and assigns \<^verbatim>\<open>canvasStates[-1]\<close>, a property beside the elements: 49 snapshots are
  left, none after the cursor was discarded but one, and D is not appended.
\<close>

theorem push_after_sweep_below_floor:
  "run stack initial_server
     (replicate 51 (push (JString ''S'')) @ replicate 51 undo @ [Sweep, push (JString ''D'')]) =
     \<lparr>canvasStates = \<lparr>elems = replicate 49 (JString ''S''), named = [(- 1, JString ''D'')]\<rparr>,
      currentStateIndex = - 1\<rparr>"
proof -
  have a: "run stack initial_server (xs @ ys @ [Sweep, e])
             = step stack (run stack initial_server (xs @ ys @ [Sweep])) e" for xs ys e
    by (simp add: run_def)
  show ?thesis
    unfolding a run_below_floor
    by (simp add: save_state_msg_def state_on_message dispatch_def splice_def array_set_def
                  array_length_def Let_def)
qed

text \<open>
  With the cursor in range (at least -1) and below the last index the push does what C4
  says: the entries after the cursor go, the snapshot is appended, the cursor moves up
  by one and nothing is sent; and the scenario of pushes A, B, C, an undo and a push of
  D ends with [A, B, D] and the cursor at 2.
\<close>

lemma push_in_range:
  assumes "get_prop message ''type'' = Inr (JString ''save-state'')"
      and "get_prop message ''stateData'' = Inr d"
      and "truthy d"
      and "- 1 \<le> currentStateIndex st"
      and "currentStateIndex st < array_length (canvasStates st) - 1"
  shows "on_message stack conns uid ucolor st (Inr message) =
           \<lparr>state = \<lparr>canvasStates = (canvasStates st)
                        \<lparr>elems := take (nat (currentStateIndex st + 1)) (elems (canvasStates st)) @ [d]\<rparr>,
                     currentStateIndex = currentStateIndex st + 1\<rparr>,
            sent = [], logged = [], thrown = None, closed = []\<rparr>"
  using assms by (intro commit_valid) simp_all

lemma push_scenario:
  assumes "truthy A" and "truthy B" and "truthy C" and "truthy D"
  shows "run stack initial_server
           [Message conns uid ucolor (save_state_msg A),
            Message conns uid ucolor (save_state_msg B),
            Message conns uid ucolor (save_state_msg C),
            Message conns uid ucolor (msg ''undo''),
            Message conns uid ucolor (save_state_msg D)] =
           \<lparr>canvasStates = \<lparr>elems = [A, B, D], named = []\<rparr>, currentStateIndex = 2\<rparr>"
proof -
  have push: "step stack s (Message conns uid ucolor (save_state_msg x)) =
           \<lparr>canvasStates = (canvasStates s)
              \<lparr>elems := take (nat (currentStateIndex s + 1)) (elems (canvasStates s)) @ [x]\<rparr>,
            currentStateIndex = currentStateIndex s + 1\<rparr>"
    if "truthy x" "- 1 \<le> currentStateIndex s" "currentStateIndex s \<le> array_length (canvasStates s) - 1"
    for s x
    using that commit_valid [of "JObject [(''type'', JString ''save-state''), (''stateData'', x)]" x s stack conns uid ucolor]
    by (simp add: save_state_msg_def)
  show ?thesis
    using assms
    by (simp add: run_def push step_undo initial_server_def array_length_def del: step.simps)
qed

subsection \<open>C5: the sweep and the cursor\<close>

text \<open>
  C5 evaluated where it fails: 51 pushes and 51 undos leave 51 snapshots and the cursor
  at -1; the sweep removes one snapshot and subtracts one from the cursor, which is then
  -2, below the range of the history. (Where the cursor is at or above the number of
  removed entries the sweep keeps it on its snapshot and in range: \<open>sweep_keeps_snapshot\<close>.)
\<close>

theorem sweep_below_floor:
  "currentStateIndex
     (run stack initial_server (replicate 51 (push (JString ''S'')) @ replicate 51 undo @ [Sweep])) = - 2
   \<and> array_length (canvasStates
       (run stack initial_server (replicate 51 (push (JString ''S'')) @ replicate 51 undo @ [Sweep]))) = 50
   \<and> \<not> history_inv
       (run stack initial_server (replicate 51 (push (JString ''S'')) @ replicate 51 undo @ [Sweep]))"
  by (simp add: run_below_floor history_inv_def array_length_def)

subsection \<open>C6: undo\<close>

text \<open>
  What \<^verbatim>\<open>undo\<close> does in every state: above 0 the cursor is decremented and the
  \<^verbatim>\<open>undo\<close> message with the new cursor and the snapshot read at it is broadcast, or
  the broadcast throws and the error is logged with the cursor already moved; at 0 the
  cursor becomes -1 and the message carries -1 and \<^verbatim>\<open>null\<close>; below 0 nothing happens.
\<close>

lemma undo_outcome:
  assumes "get_prop message ''type'' = Inr (JString ''undo'')"
  shows "(0 < currentStateIndex st \<longrightarrow>
            on_message stack conns uid ucolor st (Inr message) =
              (case broadcastToAll stack conns
                 (JObject [(''type'', JString ''undo''),
                           (''stateIndex'', JNumber (Finite (of_int (currentStateIndex st - 1)))),
                           (''stateData'', array_get (canvasStates st) (currentStateIndex st - 1))])
                 None of
                 Inl e \<Rightarrow> \<lparr>state = st\<lparr>currentStateIndex := currentStateIndex st - 1\<rparr>,
                            sent = [], logged = [e], thrown = None, closed = []\<rparr>
               | Inr out \<Rightarrow> \<lparr>state = st\<lparr>currentStateIndex := currentStateIndex st - 1\<rparr>,
                              sent = out, logged = [], thrown = None, closed = []\<rparr>))
       \<and> (currentStateIndex st = 0 \<longrightarrow>
            on_message stack conns uid ucolor st (Inr message) =
              \<lparr>state = st\<lparr>currentStateIndex := - 1\<rparr>,
               sent = deliveries conns
                 (JObject [(''type'', JString ''undo''),
                           (''stateIndex'', JNumber (Finite (- 1))),
                           (''stateData'', JNull)])
                 None,
               logged = [], thrown = None, closed = []\<rparr>)
       \<and> (currentStateIndex st < 0 \<longrightarrow>
            on_message stack conns uid ucolor st (Inr message) =
              \<lparr>state = st, sent = [], logged = [], thrown = None, closed = []\<rparr>)"
proof -
  have "broadcastToAll stack conns
          (JObject [(''type'', JString ''undo''), (''stateIndex'', JNumber (Finite (- 1))),
                    (''stateData'', JNull)]) None
        = Inr (deliveries conns
          (JObject [(''type'', JString ''undo''), (''stateIndex'', JNumber (Finite (- 1))),
                    (''stateData'', JNull)]) None)"
    by (rule broadcastToAll_flat) simp
  then show ?thesis
    using assms by (simp add: on_message_def dispatch_def Let_def split: sum.splits)
qed

text \<open>
  C6 evaluated where it fails: a snapshot nested one array deeper than
  \<^verbatim>\<open>JSON.stringify\<close> can serialise is pushed, then a second snapshot; the cursor is 1.
  On \<^verbatim>\<open>undo\<close> the handler decrements the cursor, the broadcast throws a RangeError in
  the \<^verbatim>\<open>try\<close> block, and the \<^verbatim>\<open>catch\<close> logs it: the cursor is 0 and no participant
  has been sent an \<^verbatim>\<open>undo\<close> message, with two transports open.
\<close>

theorem undo_unserialisable_snapshot:
  "run stack initial_server [push (nest (Suc stack) (JNumber (Finite 1))), push (JString ''B'')] =
     \<lparr>canvasStates = \<lparr>elems = [nest (Suc stack) (JNumber (Finite 1)), JString ''B''], named = []\<rparr>,
      currentStateIndex = 1\<rparr>
   \<and> on_message stack three_users ''user-2'' ''#4ECDC4''
       (run stack initial_server [push (nest (Suc stack) (JNumber (Finite 1))), push (JString ''B'')])
       (msg ''undo'') =
     \<lparr>state = \<lparr>canvasStates = \<lparr>elems = [nest (Suc stack) (JNumber (Finite 1)), JString ''B''],
                                named = []\<rparr>,
               currentStateIndex = 0\<rparr>,
      sent = [], logged = [RangeError], thrown = None, closed = []\<rparr>"
proof -
  let ?deep = "nest (Suc stack) (JNumber (Finite 1))"
  have r: "run stack initial_server [push ?deep, push (JString ''B'')] =
     \<lparr>canvasStates = \<lparr>elems = [?deep, JString ''B''], named = []\<rparr>, currentStateIndex = 1\<rparr>"
    by (simp add: run_def step_push_top initial_server_def array_length_def del: step.simps nest.simps)
      (simp add: step_push_top array_length_def del: step.simps)
  have d: "depth (nest stack (JNumber (Finite 1))) = stack"
    by (simp add: depth_nest)
  show ?thesis
    unfolding r
    by (simp add: msg_def on_message_def dispatch_def broadcastToAll_def deliveries_def
                  JSON_stringify_throws_def array_get_def array_length_def d)
qed

subsection \<open>C7: redo\<close>

text \<open>
  What \<^verbatim>\<open>redo\<close> does in every state: below the last index the cursor is incremented
  and the \<^verbatim>\<open>redo\<close> message with the new cursor and the value read at it is broadcast,
  or the broadcast throws and the error is logged with the cursor already moved; at or
  above the last index nothing happens.
\<close>

lemma redo_outcome:
  assumes "get_prop message ''type'' = Inr (JString ''redo'')"
  shows "(currentStateIndex st < array_length (canvasStates st) - 1 \<longrightarrow>
            on_message stack conns uid ucolor st (Inr message) =
              (case broadcastToAll stack conns
                 (JObject [(''type'', JString ''redo''),
                           (''stateIndex'', JNumber (Finite (of_int (currentStateIndex st + 1)))),
                           (''stateData'', array_get (canvasStates st) (currentStateIndex st + 1))])
                 None of
                 Inl e \<Rightarrow> \<lparr>state = st\<lparr>currentStateIndex := currentStateIndex st + 1\<rparr>,
                            sent = [], logged = [e], thrown = None, closed = []\<rparr>
               | Inr out \<Rightarrow> \<lparr>state = st\<lparr>currentStateIndex := currentStateIndex st + 1\<rparr>,
                              sent = out, logged = [], thrown = None, closed = []\<rparr>))
       \<and> (array_length (canvasStates st) - 1 \<le> currentStateIndex st \<longrightarrow>
            on_message stack conns uid ucolor st (Inr message) =
              \<lparr>state = st, sent = [], logged = [], thrown = None, closed = []\<rparr>)"
  using assms by (simp add: on_message_def dispatch_def Let_def split: sum.splits)

text \<open>
  C7 evaluated where it fails. After the sweep has left the cursor at -2 (C5), a
  \<^verbatim>\<open>redo\<close> moves it to -1 and broadcasts a message whose \<^verbatim>\<open>stateData\<close> is
  \<^verbatim>\<open>undefined\<close>: there is no snapshot at -1. And where the snapshot at the new cursor
  is nested deeper than \<^verbatim>\<open>JSON.stringify\<close> can serialise, the cursor is incremented,
  the broadcast throws and nothing is sent.
\<close>

theorem redo_without_snapshot:
  "on_message stack three_users ''user-1'' ''#FF6B6B''
     (run stack initial_server (replicate 51 (push (JString ''S'')) @ replicate 51 undo @ [Sweep]))
     (msg ''redo'') =
     \<lparr>state = \<lparr>canvasStates = \<lparr>elems = replicate 50 (JString ''S''), named = []\<rparr>,
               currentStateIndex = - 1\<rparr>,
      sent = [(''user-1'', JObject [(''type'', JString ''redo''), (''stateIndex'', JNumber (Finite (- 1))),
                                   (''stateData'', JUndefined)]),
              (''user-2'', JObject [(''type'', JString ''redo''), (''stateIndex'', JNumber (Finite (- 1))),
                                   (''stateData'', JUndefined)])],
      logged = [], thrown = None, closed = []\<rparr>
   \<and> run stack initial_server
       [push (JString ''A''), push (nest (Suc stack) (JNumber (Finite 1))), undo] =
     \<lparr>canvasStates = \<lparr>elems = [JString ''A'', nest (Suc stack) (JNumber (Finite 1))], named = []\<rparr>,
      currentStateIndex = 0\<rparr>
   \<and> on_message stack three_users ''user-1'' ''#FF6B6B''
       (run stack initial_server
          [push (JString ''A''), push (nest (Suc stack) (JNumber (Finite 1))), undo])
       (msg ''redo'') =
     \<lparr>state = \<lparr>canvasStates = \<lparr>elems = [JString ''A'', nest (Suc stack) (JNumber (Finite 1))],
                                named = []\<rparr>,
               currentStateIndex = 1\<rparr>,
      sent = [], logged = [RangeError], thrown = None, closed = []\<rparr>"
proof -
  let ?deep = "nest (Suc stack) (JNumber (Finite 1))"
  have r: "run stack initial_server [push (JString ''A''), push ?deep, undo] =
     \<lparr>canvasStates = \<lparr>elems = [JString ''A'', ?deep], named = []\<rparr>, currentStateIndex = 0\<rparr>"
    by (simp add: run_def step_push_top step_undo initial_server_def array_length_def
             del: step.simps nest.simps)
      (simp add: step_push_top step_undo array_length_def del: step.simps)
  have d: "depth (nest stack (JNumber (Finite 1))) = stack"
    by (simp add: depth_nest)
  have 1: "on_message stack three_users ''user-1'' ''#FF6B6B''
     (run stack initial_server (replicate 51 (push (JString ''S'')) @ replicate 51 undo @ [Sweep]))
     (msg ''redo'') =
     \<lparr>state = \<lparr>canvasStates = \<lparr>elems = replicate 50 (JString ''S''), named = []\<rparr>,
               currentStateIndex = - 1\<rparr>,
      sent = [(''user-1'', JObject [(''type'', JString ''redo''), (''stateIndex'', JNumber (Finite (- 1))),
                                   (''stateData'', JUndefined)]),
              (''user-2'', JObject [(''type'', JString ''redo''), (''stateIndex'', JNumber (Finite (- 1))),
                                   (''stateData'', JUndefined)])],
      logged = [], thrown = None, closed = []\<rparr>"
    unfolding run_below_floor
    by (simp add: msg_def on_message_def dispatch_def broadcastToAll_def deliveries_def
                  JSON_stringify_throws_def array_get_def array_length_def)
  have 2: "on_message stack three_users ''user-1'' ''#FF6B6B''
       (run stack initial_server [push (JString ''A''), push ?deep, undo]) (msg ''redo'') =
     \<lparr>state = \<lparr>canvasStates = \<lparr>elems = [JString ''A'', ?deep], named = []\<rparr>,
               currentStateIndex = 1\<rparr>,
      sent = [], logged = [RangeError], thrown = None, closed = []\<rparr>"
    unfolding r
    by (simp add: msg_def on_message_def dispatch_def broadcastToAll_def deliveries_def
                  JSON_stringify_throws_def array_get_def array_length_def d)
  from 1 r 2 show ?thesis by blast
qed

subsection \<open>C8: relaying draw-start and draw-move\<close>




subsection \<open>C9: a payload that does not parse\<close>



subsection \<open>C10: save-state without a payload\<close>

text \<open>
  C10: a \<^verbatim>\<open>save-state\<close> message whose \<^verbatim>\<open>stateData\<close> is absent (\<^verbatim>\<open>undefined\<close>),
  \<^verbatim>\<open>null\<close>, the empty string or any other falsy value leaves the history and the
  cursor unchanged and sends nothing; a truthy \<^verbatim>\<open>stateData\<close> moves the cursor.
\<close>

theorem save_state_guard:
  assumes "get_prop message ''type'' = Inr (JString ''save-state'')"
      and "get_prop message ''stateData'' = Inr d"
  shows "(d = JUndefined \<or> d = JNull \<or> d = JString [] \<or> \<not> truthy d \<longrightarrow>
            on_message stack conns uid ucolor st (Inr message) =
              \<lparr>state = st, sent = [], logged = [], thrown = None, closed = []\<rparr>)
       \<and> (truthy d \<longrightarrow>
            currentStateIndex (state (on_message stack conns uid ucolor st (Inr message)))
              = currentStateIndex st + 1)"
  using assms by (auto simp add: on_message_def dispatch_def Let_def)

text \<open>C10 at the empty string, at an absent payload and at a payload that commits.\<close>

theorem save_state_guard_witness:
  "get_prop (JObject [(''type'', JString ''save-state''), (''stateData'', JString [])]) ''type''
     = Inr (JString ''save-state'')
   \<and> get_prop (JObject [(''type'', JString ''save-state''), (''stateData'', JString [])]) ''stateData''
     = Inr (JString [])
   \<and> on_message 5000 three_users ''user-1'' ''#FF6B6B'' (history_AB 0) (save_state_msg (JString [])) =
       \<lparr>state = history_AB 0, sent = [], logged = [], thrown = None, closed = []\<rparr>
   \<and> get_prop (JObject [(''type'', JString ''save-state'')]) ''stateData'' = Inr JUndefined
   \<and> on_message 5000 three_users ''user-1'' ''#FF6B6B'' (history_AB 0) (msg ''save-state'') =
       \<lparr>state = history_AB 0, sent = [], logged = [], thrown = None, closed = []\<rparr>
   \<and> truthy (JString ''C'')
   \<and> currentStateIndex (state (on_message 5000 three_users ''user-1'' ''#FF6B6B'' (history_AB 0)
         (save_state_msg (JString ''C'')))) = 1"
proof -
  have h1: "get_prop (JObject [(''type'', JString ''save-state''), (''stateData'', d)]) ''type''
     = Inr (JString ''save-state'')" for d
    by simp
  have h2: "get_prop (JObject [(''type'', JString ''save-state''), (''stateData'', d)]) ''stateData''
     = Inr d" for d
    by simp
  have h3: "get_prop (JObject [(''type'', JString ''save-state'')]) ''type''
     = Inr (JString ''save-state'')"
    by simp
  have h4: "get_prop (JObject [(''type'', JString ''save-state'')]) ''stateData'' = Inr JUndefined"
    by simp
  show ?thesis
    using h1 [of "JString []"] h2 [of "JString []"] h4
      save_state_guard [OF h1 h2, of "JString []" 5000 three_users "''user-1''" "''#FF6B6B''" "history_AB 0"]
      save_state_guard [OF h3 h4, of 5000 three_users "''user-1''" "''#FF6B6B''" "history_AB 0"]
      save_state_guard [OF h1 h2, of "JString ''C''" 5000 three_users "''user-1''" "''#FF6B6B''" "history_AB 0"]
    by (simp add: msg_def save_state_msg_def)
qed

end
